theory Spec2Isabelle
  imports Main "HOL-Library.Word"
begin

section \<open>Values of the external libraries\<close>

text \<open>
  The backend (\<^verbatim>\<open>src/backend/src/server.ts\<close>, which also holds
  \<^verbatim>\<open>custom-persistence.ts\<close>) is glue between two libraries that are not part of the
  repository: the Yjs CRDT engine and the MongoDB driver. Their values are modelled as
  far as the glue code inspects them; their functions are parameters of the model.
\<close>

type_synonym bytes = "8 word list"

datatype exn = MongoConnectError | BSONError | YjsError

text \<open>
  \<^verbatim>\<open>item.content\<close> as \<^verbatim>\<open>extractTextFromYDoc\<close> looks at it: an object whose
  constructor is named \<^verbatim>\<open>ContentString\<close> (with its \<^verbatim>\<open>str\<close>), a plain string, or
  anything else.
\<close>

datatype content = ContentString string | ContentRaw string | ContentOther

text \<open>
  A shared type or a value reachable from one, by its runtime class:
  \<^item> \<open>YText n s\<close>: a \<^verbatim>\<open>Y.Text\<close> with \<^verbatim>\<open>length\<close> \<open>n\<close> and \<^verbatim>\<open>toString()\<close> \<open>s\<close>;
  \<^item> \<open>YXmlText n s\<close>: a \<^verbatim>\<open>Y.XmlText\<close> (a subclass of \<^verbatim>\<open>Y.Text\<close>);
  \<^item> \<open>YXmlElement s cs\<close>, \<open>YXmlFragment s cs\<close>: \<^verbatim>\<open>toString()\<close> and \<^verbatim>\<open>toArray()\<close>
    (\<^verbatim>\<open>Y.XmlElement\<close> is a subclass of \<^verbatim>\<open>Y.XmlFragment\<close>);
  \<^item> \<open>AbstractType m i st n s\<close>: an untyped shared type with \<^verbatim>\<open>_map\<close>, \<^verbatim>\<open>_item\<close>,
    \<^verbatim>\<open>_start\<close>, \<^verbatim>\<open>_length\<close>, and the text its item chain renders to once
    \<^verbatim>\<open>getText\<close> has given it the class \<^verbatim>\<open>Y.Text\<close>;
  \<^item> \<open>Item c s\<close>: an \<^verbatim>\<open>Item\<close> with its \<^verbatim>\<open>content\<close> and \<^verbatim>\<open>toString()\<close>;
  \<^item> \<open>YOther s\<close>: any other class (\<^verbatim>\<open>Y.Map\<close>, \<^verbatim>\<open>Y.Array\<close>, ...) with its \<^verbatim>\<open>toString()\<close>.
\<close>

datatype yval =
    YText nat string
  | YXmlText nat string
  | YXmlElement string "yval list"
  | YXmlFragment string "yval list"
  | AbstractType "(string \<times> yval) list" "yval option" "yval option" nat string
  | Item content string
  | YOther string

text \<open>
  A \<^verbatim>\<open>Y.Doc\<close>: the registry \<^verbatim>\<open>ydoc.share\<close> (a JavaScript \<^verbatim>\<open>Map\<close>, which keeps
  insertion order) and the struct store with its delete set, which is all that
  \<^verbatim>\<open>Y.encodeStateAsUpdate\<close> serialises. The store is opaque to the backend.
\<close>

record 's ydoc =
  share :: "(string \<times> yval) list"
  store :: 's

text \<open>
  The library functions the backend calls. \<^verbatim>\<open>Y.applyUpdate\<close> returns \<open>None\<close> where it
  throws; \<^verbatim>\<open>new ObjectId(docName)\<close> returns \<open>None\<close> where it throws.
  \<open>Y_applyUpdate_object\<close> is \<^verbatim>\<open>Y.applyUpdate\<close> called on an object that is not a
  \<^verbatim>\<open>Uint8Array\<close>, given by its elements: the backend casts such an object without
  converting it, and what the engine reads from it is the engine's matter.
\<close>

record ('s, 'oid) lib =
  Y_emptyStore :: 's
  Y_applyUpdate :: "'s ydoc \<Rightarrow> bytes \<Rightarrow> 's ydoc option"
  Y_applyUpdate_object :: "'s ydoc \<Rightarrow> nat list \<Rightarrow> 's ydoc option"
  Y_encodeStateAsUpdate :: "'s \<Rightarrow> bytes"
  ObjectId :: "string \<Rightarrow> 'oid option"

definition Y_Doc :: "('s, 'oid) lib \<Rightarrow> 's ydoc" where
  "Y_Doc L = \<lparr>share = [], store = Y_emptyStore L\<rparr>"

text \<open>\<^verbatim>\<open>ydoc.get(name)\<close> with the default constructor: never throws.\<close>

definition ydoc_get :: "'s ydoc \<Rightarrow> string \<Rightarrow> yval \<times> 's ydoc" where
  "ydoc_get d name =
     (case map_of (share d) name of
        Some t \<Rightarrow> (t, d)
      | None \<Rightarrow> (AbstractType [] None None 0 [],
                 d\<lparr>share := share d @ [(name, AbstractType [] None None 0 [])]\<rparr>))"

fun share_set :: "string \<Rightarrow> yval \<Rightarrow> (string \<times> yval) list \<Rightarrow> (string \<times> yval) list" where
  "share_set name t [] = [(name, t)]"
| "share_set name t ((k, v) # kvs) =
     (if k = name then (k, t) # kvs else (k, v) # share_set name t kvs)"

text \<open>
  \<^verbatim>\<open>ydoc.getText(name)\<close>: creates the type when the name is free, gives an untyped
  entry the class \<^verbatim>\<open>Y.Text\<close>, and throws (\<open>None\<close>) when the name is taken by another
  class.
\<close>

definition getText :: "'s ydoc \<Rightarrow> string \<Rightarrow> (yval \<times> 's ydoc) option" where
  "getText d name =
     (case map_of (share d) name of
        None \<Rightarrow> Some (YText 0 [], d\<lparr>share := share d @ [(name, YText 0 [])]\<rparr>)
      | Some (YText n s) \<Rightarrow> Some (YText n s, d)
      | Some (AbstractType m i st n s) \<Rightarrow>
          Some (YText n s, d\<lparr>share := share_set name (YText n s) (share d)\<rparr>)
      | Some _ \<Rightarrow> None)"

section \<open>TextExtractor\<close>

definition is_space :: "char \<Rightarrow> bool" where
  "is_space c = (c = CHR 0x09 \<or> c = CHR 0x0A \<or> c = CHR 0x0B \<or> c = CHR 0x0C
                 \<or> c = CHR 0x0D \<or> c = CHR 0x20 \<or> c = CHR 0xA0)"

definition trim :: "string \<Rightarrow> string" where
  "trim s = rev (dropWhile is_space (rev (dropWhile is_space s)))"

text \<open>\<^verbatim>\<open>text && text.trim().length > 0\<close>\<close>

definition nonblank :: "string \<Rightarrow> bool" where
  "nonblank s = (s \<noteq> [] \<and> length (trim s) > 0)"

fun toString :: "yval \<Rightarrow> string" where
  "toString (YText n s) = s"
| "toString (YXmlText n s) = s"
| "toString (YXmlElement s cs) = s"
| "toString (YXmlFragment s cs) = s"
| "toString (AbstractType m i st n s) = ''[object Object]''"
| "toString (Item c s) = s"
| "toString (YOther s) = s"

fun ylength :: "yval \<Rightarrow> nat" where
  "ylength (YText n s) = n"
| "ylength (YXmlText n s) = n"
| "ylength _ = 0"

fun instanceof_YText :: "yval \<Rightarrow> bool" where
  "instanceof_YText (YText n s) = True"
| "instanceof_YText (YXmlText n s) = True"
| "instanceof_YText _ = False"

text \<open>Lines 112-118: the first grandchild that is a \<^verbatim>\<open>Y.Text\<close> with non-blank text.\<close>

fun grandchild_text :: "(string \<times> yval) list \<Rightarrow> string option" where
  "grandchild_text [] = None"
| "grandchild_text ((childKey, childValue) # rest) =
     (if instanceof_YText childValue \<and> nonblank (toString childValue)
      then Some (toString childValue) else grandchild_text rest)"

text \<open>Lines 74-103: the three attempts on a child that is an \<^verbatim>\<open>Item\<close>.\<close>

definition item_text :: "content \<Rightarrow> string \<Rightarrow> string option" where
  "item_text c itemText =
     (case (case c of ContentString str \<Rightarrow> if nonblank str then Some str else None
                    | ContentRaw str \<Rightarrow> if nonblank str then Some str else None
                    | ContentOther \<Rightarrow> None) of
        Some t \<Rightarrow> Some t
      | None \<Rightarrow> if nonblank itemText \<and> itemText \<noteq> ''[object Object]''
                then Some itemText else None)"

text \<open>Lines 61-122: one entry of the root's \<^verbatim>\<open>_map\<close>.\<close>

fun root_child :: "yval \<Rightarrow> string option" where
  "root_child (YText n s) = (if nonblank s then Some s else None)"
| "root_child (YXmlText n s) = (if nonblank s then Some s else None)"
| "root_child (Item c s) = item_text c s"
| "root_child (AbstractType m i st n s) = grandchild_text m"
| "root_child _ = None"

fun root_map :: "(string \<times> yval) list \<Rightarrow> string option" where
  "root_map [] = None"
| "root_map ((key, v) # rest) =
     (case root_child v of Some t \<Rightarrow> Some t | None \<Rightarrow> root_map rest)"

text \<open>Lines 126-147: \<^verbatim>\<open>_item\<close> and \<^verbatim>\<open>_start\<close> count only when they are a \<^verbatim>\<open>Y.Text\<close>.\<close>

definition field_text :: "yval option \<Rightarrow> string option" where
  "field_text f =
     (case f of
        None \<Rightarrow> None
      | Some v \<Rightarrow> if instanceof_YText v \<and> nonblank (toString v)
                  then Some (toString v) else None)"

text \<open>Lines 48-162: what the lookup of \<^verbatim>\<open>'root'\<close> returns, if it returns.\<close>

fun root_text :: "yval \<Rightarrow> string option" where
  "root_text (AbstractType m i st n s) =
     (case root_map m of
        Some t \<Rightarrow> Some t
      | None \<Rightarrow> (case field_text i of Some t \<Rightarrow> Some t | None \<Rightarrow> field_text st))"
| "root_text v = (if nonblank (toString v) then Some (toString v) else None)"

text \<open>Lines 186-195: \<^verbatim>\<open>collect\<close>.\<close>

fun collect :: "yval \<Rightarrow> string" where
  "collect (YXmlText n s) = s"
| "collect (YXmlElement s cs) = concat (map collect cs)"
| "collect (YXmlFragment s cs) = concat (map collect cs)"
| "collect _ = []"

text \<open>Lines 211-253: one entry of an untyped shared type's \<^verbatim>\<open>_map\<close>, in the fallback.\<close>

fun fallback_child :: "yval \<Rightarrow> string" where
  "fallback_child (YText n s) = (if nonblank s then s else [])"
| "fallback_child (YXmlText n s) = (if nonblank s then s else [])"
| "fallback_child (Item c s) =
     (case c of ContentString str \<Rightarrow> if nonblank str then str else []
              | ContentRaw str \<Rightarrow> if nonblank str then str else []
              | ContentOther \<Rightarrow> [])
     @ (if nonblank s \<and> s \<noteq> ''[object Object]'' then s else [])"
| "fallback_child _ = []"

definition fallback_field :: "yval option \<Rightarrow> string" where
  "fallback_field f =
     (case f of None \<Rightarrow> []
      | Some v \<Rightarrow> if nonblank (toString v) then toString v else [])"

text \<open>Lines 173-278: what one entry of \<^verbatim>\<open>ydoc.share\<close> adds to \<^verbatim>\<open>extractedText\<close>.\<close>

fun fallback_shared :: "yval \<Rightarrow> string" where
  "fallback_shared (YText n s) = s"
| "fallback_shared (YXmlText n s) = s"
| "fallback_shared (YXmlElement s cs) = collect (YXmlElement s cs)"
| "fallback_shared (YXmlFragment s cs) = collect (YXmlFragment s cs)"
| "fallback_shared (AbstractType m i st n s) =
     (if m \<noteq> [] then concat (map (\<lambda>kv. fallback_child (snd kv)) m)
                      @ fallback_field i @ fallback_field st
      else [])"
| "fallback_shared _ = []"

text \<open>
  \<^verbatim>\<open>extractTextFromYDoc\<close>: the text returned and the document as the calls of
  \<^verbatim>\<open>getText\<close> and \<^verbatim>\<open>get\<close> leave it. A throwing \<^verbatim>\<open>getText\<close> is caught by the outer
  \<^verbatim>\<open>catch\<close>, which returns the empty string.
\<close>

definition extractTextFromYDoc :: "'s ydoc \<Rightarrow> string \<times> 's ydoc" where
  "extractTextFromYDoc ydoc =
     (case getText ydoc ''content'' of
        None \<Rightarrow> ([], ydoc)
      | Some (content, d1) \<Rightarrow>
          if ylength content > 0 then (toString content, d1)
          else (case getText d1 ''lexical'' of
                  None \<Rightarrow> ([], d1)
                | Some (lexicalContent, d2) \<Rightarrow>
                    if ylength lexicalContent > 0 then (toString lexicalContent, d2)
                    else (case ydoc_get d2 ''root'' of
                            (rootAbstract, d3) \<Rightarrow>
                              (case root_text rootAbstract of
                                 Some t \<Rightarrow> (t, d3)
                               | None \<Rightarrow>
                                   (case getText d3 ''editor'' of
                                      None \<Rightarrow> ([], d3)
                                    | Some (editorContent, d4) \<Rightarrow>
                                        if ylength editorContent > 0
                                        then (toString editorContent, d4)
                                        else (concat (map (\<lambda>kv. fallback_shared (snd kv))
                                                        (share d4)), d4))))))"

definition logTextBeforeSave :: "'s ydoc \<Rightarrow> 's ydoc" where
  "logTextBeforeSave ydoc = snd (extractTextFromYDoc ydoc)"

section \<open>CustomMongoPersistence\<close>

text \<open>
  The \<^verbatim>\<open>stateVector\<close> field as \<^verbatim>\<open>findOne\<close> returns it (its type is
  \<^verbatim>\<open>Buffer | any\<close>): a Node \<^verbatim>\<open>Buffer\<close>; a MongoDB \<^verbatim>\<open>Binary\<close> (whose \<^verbatim>\<open>length\<close> is a
  method); a \<^verbatim>\<open>Uint8Array\<close> that is not a \<^verbatim>\<open>Buffer\<close>; another object with a numeric
  \<^verbatim>\<open>length\<close>, such as an array, given by its elements; an object that is not a
  \<^verbatim>\<open>Binary\<close> and whose \<^verbatim>\<open>length\<close> is a function; a string; a falsy value; any other
  truthy value.
\<close>

datatype field = Buffer bytes | Binary bytes | Uint8Array bytes | ArrayLike "nat list"
  | LengthFn | JString string | JFalsy | JOther

record docState =
  stateVector :: "field option"
  updatedAt :: nat

record 'oid mongo =
  reachable :: bool
  isConnected :: bool
  collection :: "'oid \<rightharpoonup> docState"

fun truthy :: "field option \<Rightarrow> bool" where
  "truthy None = False"
| "truthy (Some JFalsy) = False"
| "truthy (Some (JString s)) = (s \<noteq> [])"
| "truthy (Some _) = True"

text \<open>\<^verbatim>\<open>typeof stateVector.length === 'function'\<close>\<close>

fun length_is_function :: "field option \<Rightarrow> bool" where
  "length_is_function (Some (Binary b)) = True"
| "length_is_function (Some LengthFn) = True"
| "length_is_function _ = False"

fun is_Binary :: "field option \<Rightarrow> bool" where
  "is_Binary (Some (Binary b)) = True"
| "is_Binary _ = False"

text \<open>
  \<^verbatim>\<open>connect\<close>: \<^verbatim>\<open>client.connect()\<close> rejects when the server cannot be reached; the
  state is then as before.
\<close>

definition connect :: "'oid mongo \<Rightarrow> exn + 'oid mongo" where
  "connect m =
     (if \<not> isConnected m
      then (if reachable m then Inr (m\<lparr>isConnected := True\<rparr>) else Inl MongoConnectError)
      else Inr m)"

definition disconnect :: "'oid mongo \<Rightarrow> 'oid mongo" where
  "disconnect m = (if isConnected m then m\<lparr>isConnected := False\<rparr> else m)"

definition destroy :: "'oid mongo \<Rightarrow> 'oid mongo" where
  "destroy m = disconnect m"

text \<open>
  \<^verbatim>\<open>updateOne(filter, {$set: {stateVector, updatedAt}}, {upsert: true})\<close>; the record
  has no field besides its key and these two.
\<close>

definition upsert :: "'oid \<Rightarrow> bytes \<Rightarrow> nat \<Rightarrow> ('oid \<rightharpoonup> docState) \<Rightarrow> ('oid \<rightharpoonup> docState)" where
  "upsert oid b now c = c(oid \<mapsto> \<lparr>stateVector = Some (Buffer b), updatedAt = now\<rparr>)"

text \<open>
  \<^verbatim>\<open>writeState\<close> of the class. \<^verbatim>\<open>connect\<close> is awaited outside the \<^verbatim>\<open>try\<close>; a throwing
  \<^verbatim>\<open>new ObjectId\<close> is caught and logged.
\<close>

definition writeState ::
  "('s, 'oid) lib \<Rightarrow> nat \<Rightarrow> string \<Rightarrow> 's ydoc \<Rightarrow> 'oid mongo \<Rightarrow> (exn + unit) \<times> 'oid mongo" where
  "writeState L now docName ydoc m =
     (case connect m of
        Inl e \<Rightarrow> (Inl e, m)
      | Inr m1 \<Rightarrow>
          (let stateVector = Y_encodeStateAsUpdate L (store ydoc) in
           if length stateVector > 0
           then (case ObjectId L docName of
                   None \<Rightarrow> (Inr (), m1)
                 | Some oid \<Rightarrow>
                     (Inr (), m1\<lparr>collection := upsert oid stateVector now (collection m1)\<rparr>))
           else (Inr (), m1)))"

text \<open>
  What \<^verbatim>\<open>Y.applyUpdate\<close> is handed as the stored state: bytes, or an object that has
  only been cast to \<^verbatim>\<open>Uint8Array\<close>.
\<close>

datatype update_arg = Bytes bytes | Object "nat list"

text \<open>
  Lines 488-508 and 555-568, the same in \<^verbatim>\<open>getYDoc\<close> and \<^verbatim>\<open>storeUpdate\<close>: a
  \<^verbatim>\<open>Buffer\<close> and the buffer of a \<^verbatim>\<open>Binary\<close> are copied into a new \<^verbatim>\<open>Uint8Array\<close>;
  any other object with a \<^verbatim>\<open>length\<close> is cast and stays the object it is. An object
  whose \<^verbatim>\<open>length\<close> is a function passes the test \<^verbatim>\<open>'length' in\<close>, and then fails
  \<^verbatim>\<open>length > 0\<close>; it is \<open>None\<close> here, as is a value none of the branches take.
\<close>

fun to_Uint8Array :: "field option \<Rightarrow> update_arg option" where
  "to_Uint8Array (Some (Buffer b)) = Some (Bytes b)"
| "to_Uint8Array (Some (Binary b)) = Some (Bytes b)"
| "to_Uint8Array (Some (Uint8Array b)) = Some (Bytes b)"
| "to_Uint8Array (Some (ArrayLike xs)) = Some (Object xs)"
| "to_Uint8Array _ = None"

fun arg_length :: "update_arg \<Rightarrow> nat" where
  "arg_length (Bytes b) = length b"
| "arg_length (Object xs) = length xs"

fun applyUpdate_arg :: "('s, 'oid) lib \<Rightarrow> 's ydoc \<Rightarrow> update_arg \<Rightarrow> 's ydoc option" where
  "applyUpdate_arg L d (Bytes b) = Y_applyUpdate L d b"
| "applyUpdate_arg L d (Object xs) = Y_applyUpdate_object L d xs"

text \<open>
  \<^verbatim>\<open>fixCorruptedDocument\<close>: \<^verbatim>\<open>updateOne\<close> with \<^verbatim>\<open>$unset\<close> of \<^verbatim>\<open>stateVector\<close> and
  \<^verbatim>\<open>$set\<close> of \<^verbatim>\<open>updatedAt\<close>.
\<close>

definition fixCorruptedDocument ::
  "('s, 'oid) lib \<Rightarrow> nat \<Rightarrow> string \<Rightarrow> 'oid mongo \<Rightarrow> (exn + unit) \<times> 'oid mongo" where
  "fixCorruptedDocument L now docName m =
     (case connect m of
        Inl e \<Rightarrow> (Inl e, m)
      | Inr m1 \<Rightarrow>
          (case ObjectId L docName of
             None \<Rightarrow> (Inr (), m1)
           | Some oid \<Rightarrow>
               (case collection m1 oid of
                  None \<Rightarrow> (Inr (), m1)
                | Some docState \<Rightarrow>
                    if truthy (stateVector docState) \<and> length_is_function (stateVector docState)
                    then (if is_Binary (stateVector docState) then (Inr (), m1)
                          else (Inr (), m1\<lparr>collection := (collection m1)
                                  (oid \<mapsto> docState\<lparr>stateVector := None, updatedAt := now\<rparr>)\<rparr>))
                    else (Inr (), m1))))"

text \<open>
  \<^verbatim>\<open>getYDoc\<close>. \<^verbatim>\<open>connect\<close> is awaited before the \<^verbatim>\<open>try\<close>; everything thrown after
  it is caught and answered with \<^verbatim>\<open>new Y.Doc()\<close>.
\<close>

definition getYDoc ::
  "('s, 'oid) lib \<Rightarrow> nat \<Rightarrow> string \<Rightarrow> 'oid mongo \<Rightarrow> (exn + 's ydoc) \<times> 'oid mongo" where
  "getYDoc L now docName m =
     (case connect m of
        Inl e \<Rightarrow> (Inl e, m)
      | Inr m1 \<Rightarrow>
          (case ObjectId L docName of
             None \<Rightarrow> (Inr (Y_Doc L), m1)
           | Some oid \<Rightarrow>
               (case collection m1 oid of
                  None \<Rightarrow> (Inr (Y_Doc L), m1)
                | Some docState \<Rightarrow>
                    if truthy (stateVector docState) \<and> length_is_function (stateVector docState)
                       \<and> \<not> is_Binary (stateVector docState)
                    then (Inr (Y_Doc L), snd (fixCorruptedDocument L now docName m1))
                    else (case (if truthy (stateVector docState)
                                then to_Uint8Array (stateVector docState) else None) of
                            None \<Rightarrow> (Inr (Y_Doc L), m1)
                          | Some sv \<Rightarrow>
                              if arg_length sv > 0
                              then (case applyUpdate_arg L (Y_Doc L) sv of
                                      Some doc \<Rightarrow> (Inr doc, m1)
                                    | None \<Rightarrow> (Inr (Y_Doc L), m1))
                              else (Inr (Y_Doc L), m1)))))"

text \<open>
  Lines 546-577 of \<^verbatim>\<open>storeUpdate\<close>: the temporary document after the existing state
  has been applied to it; \<open>None\<close> when \<^verbatim>\<open>Y.applyUpdate\<close> throws.
\<close>

definition tempDoc_of :: "('s, 'oid) lib \<Rightarrow> docState option \<Rightarrow> 's ydoc option" where
  "tempDoc_of L existingState =
     (case existingState of
        None \<Rightarrow> Some (Y_Doc L)
      | Some st \<Rightarrow>
          if truthy (stateVector st)
          then (case to_Uint8Array (stateVector st) of
                  None \<Rightarrow> Some (Y_Doc L)
                | Some sv \<Rightarrow> if arg_length sv > 0 then applyUpdate_arg L (Y_Doc L) sv
                             else Some (Y_Doc L))
          else Some (Y_Doc L))"

text \<open>
  \<^verbatim>\<open>storeUpdate\<close>. Whatever is thrown inside the \<^verbatim>\<open>try\<close> (by \<^verbatim>\<open>new ObjectId\<close> or by
  \<^verbatim>\<open>Y.applyUpdate\<close>) is caught and logged, and nothing is written.
\<close>

definition storeUpdate ::
  "('s, 'oid) lib \<Rightarrow> nat \<Rightarrow> string \<Rightarrow> bytes \<Rightarrow> 'oid mongo \<Rightarrow> (exn + unit) \<times> 'oid mongo" where
  "storeUpdate L now docName update m =
     (case connect m of
        Inl e \<Rightarrow> (Inl e, m)
      | Inr m1 \<Rightarrow>
          (case ObjectId L docName of
             None \<Rightarrow> (Inr (), m1)
           | Some oid \<Rightarrow>
               (case tempDoc_of L (collection m1 oid) of
                  None \<Rightarrow> (Inr (), m1)
                | Some tempDoc \<Rightarrow>
                    (case Y_applyUpdate L tempDoc update of
                       None \<Rightarrow> (Inr (), m1)
                     | Some tempDoc' \<Rightarrow>
                         (Inr (), m1\<lparr>collection :=
                            upsert oid (Y_encodeStateAsUpdate L (store tempDoc')) now
                              (collection m1)\<rparr>)))))"

text \<open>
  The stored snapshot as the specification speaks of it: what the record holds as
  snapshot, and none when there is no record, no snapshot, an empty snapshot, or a
  snapshot that is neither binary nor an object with a numeric length.
\<close>

definition persisted_snapshot :: "docState option \<Rightarrow> update_arg option" where
  "persisted_snapshot r =
     (case r of
        None \<Rightarrow> None
      | Some st \<Rightarrow>
          (case stateVector st of
             Some (Buffer b) \<Rightarrow> if b = [] then None else Some (Bytes b)
           | Some (Binary b) \<Rightarrow> if b = [] then None else Some (Bytes b)
           | Some (Uint8Array b) \<Rightarrow> if b = [] then None else Some (Bytes b)
           | Some (ArrayLike xs) \<Rightarrow> if xs = [] then None else Some (Object xs)
           | _ \<Rightarrow> None))"

text \<open>
  The scratch document of the specification's read-merge-write: the stored snapshot
  decoded into an empty document, and the empty document when there is no snapshot.
  \<open>None\<close> when decoding throws.
\<close>

definition scratch_document :: "('s, 'oid) lib \<Rightarrow> docState option \<Rightarrow> 's ydoc option" where
  "scratch_document L r =
     (case persisted_snapshot r of
        None \<Rightarrow> Some (Y_Doc L)
      | Some sv \<Rightarrow> applyUpdate_arg L (Y_Doc L) sv)"

section \<open>The persistence hooks\<close>


text \<open>
  A call of \<^verbatim>\<open>mdb.storeUpdate(docName, update)\<close> that the update listener has made.
\<close>

datatype call = StoreUpdate string bytes

text \<open>
  The state \<^verbatim>\<open>bindState\<close> leaves behind for one document: the store as it is when
  \<^verbatim>\<open>bindState\<close> returns, the flag \<^verbatim>\<open>isInitialLoad\<close> that the update listener reads,
  \<^verbatim>\<open>hasAppliedPersistedState\<close>, the time at which the pending \<^verbatim>\<open>setTimeout\<close> callback
  is due, and the calls of \<^verbatim>\<open>storeUpdate\<close> that the listener has made so far.
\<close>

record 'oid session =
  s_mdb :: "'oid mongo"
  isInitialLoad :: bool
  hasAppliedPersistedState :: bool
  timer :: "nat option"
  issued :: "call list"

text \<open>
  \<^verbatim>\<open>bindState\<close>, run at time \<open>now\<close> (milliseconds): the live document as it leaves it
  and the session. The update event that \<^verbatim>\<open>Y.applyUpdate\<close> fires on the live document
  finds \<^verbatim>\<open>isInitialLoad\<close> set and is skipped by the listener. A rejected
  \<^verbatim>\<open>getYDoc\<close> or a throwing \<^verbatim>\<open>Y.applyUpdate\<close> rejects \<^verbatim>\<open>bindState\<close>; the
  store as it is then comes with the exception.
\<close>

definition bindState ::
  "('s, 'oid) lib \<Rightarrow> nat \<Rightarrow> string \<Rightarrow> 's ydoc \<Rightarrow> 'oid mongo
     \<Rightarrow> (exn \<times> 'oid mongo) + ('s ydoc \<times> 'oid session)" where
  "bindState L now docName ydoc m =
     (case getYDoc L now docName m of
        (Inl e, m1) \<Rightarrow> Inl (e, m1)
      | (Inr persistedYdoc, m1) \<Rightarrow>
          (case extractTextFromYDoc persistedYdoc of
             (persistedText, persistedYdoc1) \<Rightarrow>
               (case extractTextFromYDoc ydoc of
                  (currentText, ydoc1) \<Rightarrow>
                    if length persistedText > 0
                    then (case Y_applyUpdate L ydoc1
                                 (Y_encodeStateAsUpdate L (store persistedYdoc1)) of
                            None \<Rightarrow> Inl (YjsError, m1)
                          | Some ydoc2 \<Rightarrow>
                              Inr (snd (extractTextFromYDoc ydoc2),
                                   \<lparr>s_mdb = m1, isInitialLoad = True,
                                    hasAppliedPersistedState = True,
                                    timer = Some (now + 2000), issued = []\<rparr>))
                    else Inr (snd (extractTextFromYDoc ydoc1),
                              \<lparr>s_mdb = m1, isInitialLoad = True,
                               hasAppliedPersistedState = False,
                               timer = Some (now + 2000), issued = []\<rparr>))))"

text \<open>
  The listener \<^verbatim>\<open>ydoc.on('update', async (update) => ...)\<close>, called on the live
  document. It takes the update bytes only; the origin that Yjs passes as second
  argument is dropped. Unless \<^verbatim>\<open>isInitialLoad\<close> is set it logs the text and calls
  \<^verbatim>\<open>mdb.storeUpdate\<close>. Yjs does not await the listener, and \<^verbatim>\<open>storeUpdate\<close> runs
  across several turns of the event loop: the step records that the call has been
  made, and says nothing of what calls that overlap leave in the store.
\<close>

definition update_listener ::
  "string \<Rightarrow> 's ydoc \<Rightarrow> bytes \<Rightarrow> 'oid session \<Rightarrow> 's ydoc \<times> 'oid session" where
  "update_listener docName ydoc update s =
     (if isInitialLoad s then (ydoc, s)
      else (logTextBeforeSave ydoc, s\<lparr>issued := issued s @ [StoreUpdate docName update]\<rparr>))"

text \<open>
  What happens to a bound document: Yjs fires an update event at some time on the
  live document, with the update bytes and an origin; or the event loop runs the
  \<^verbatim>\<open>setTimeout\<close> callback, never before it is due.
\<close>

datatype origin = NoOrigin | Origin string

datatype 's event = Update nat "'s ydoc" bytes origin | Timeout nat

fun event_time :: "'s event \<Rightarrow> nat" where
  "event_time (Update t ydoc update org) = t"
| "event_time (Timeout t) = t"

fun step :: "string \<Rightarrow> 'oid session \<Rightarrow> 's event \<Rightarrow> 'oid session" where
  "step docName s (Update t ydoc update org) = snd (update_listener docName ydoc update s)"
| "step docName s (Timeout t) =
     (case timer s of
        None \<Rightarrow> s
      | Some due \<Rightarrow> if due \<le> t then s\<lparr>isInitialLoad := False, timer := None\<rparr> else s)"

definition run :: "string \<Rightarrow> 'oid session \<Rightarrow> 's event list \<Rightarrow> 'oid session" where
  "run docName s evs = foldl (step docName) s evs"

text \<open>
  One call of \<^verbatim>\<open>storeUpdate\<close> for every update event of a list, in order, whatever
  the origin.
\<close>

fun calls_of :: "string \<Rightarrow> 's event list \<Rightarrow> call list" where
  "calls_of docName [] = []"
| "calls_of docName (Update t ydoc update org # evs) =
     StoreUpdate docName update # calls_of docName evs"
| "calls_of docName (Timeout t # evs) = calls_of docName evs"

section \<open>Process shutdown\<close>

text \<open>
  The handlers of \<^verbatim>\<open>SIGINT\<close> and \<^verbatim>\<open>SIGTERM\<close> have the same body. The process state
  is the store, whether the HTTP server accepts connections, and the number of open
  connections; the trace lists what the handler does, in order. \<^verbatim>\<open>server.close\<close>
  runs its callback, which exits, once no connection is open.
\<close>

datatype action = ReleaseStore | StopAccepting | Flush string | Exit nat

record 'oid process =
  p_mdb :: "'oid mongo"
  listening :: bool
  connections :: nat
  exited :: "nat option"

definition shutdown :: "'oid process \<Rightarrow> action list \<times> 'oid process" where
  "shutdown p =
     (let p1 = p\<lparr>p_mdb := destroy (p_mdb p)\<rparr>;
          p2 = p1\<lparr>listening := False\<rparr>
      in if connections p2 = 0
         then ([ReleaseStore, StopAccepting, Exit 0], p2\<lparr>exited := Some 0\<rparr>)
         else ([ReleaseStore, StopAccepting], p2))"

text \<open>
  The order the specification asks of a trace, for the documents that are open:
  stop accepting, then flush each document, then release the store.
\<close>

definition position :: "action \<Rightarrow> action list \<Rightarrow> nat" where
  "position a tr = length (takeWhile (\<lambda>x. x \<noteq> a) tr)"

definition two_phase_order :: "string list \<Rightarrow> action list \<Rightarrow> bool" where
  "two_phase_order docs tr =
     (position StopAccepting tr < position ReleaseStore tr
      \<and> position ReleaseStore tr < length tr
      \<and> list_all (\<lambda>d. position StopAccepting tr < position (Flush d) tr
                      \<and> position (Flush d) tr < position ReleaseStore tr) docs)"

section \<open>Connection setup\<close>

text \<open>
  Modelled from the spec: \<^verbatim>\<open>setupWSConnection\<close> of \<^verbatim>\<open>websocket/utils.ts\<close>, which
  \<^verbatim>\<open>server.ts\<close> imports and which is not among the sources. The specification says
  that the token is validated before the sync handshake begins, that a missing or
  invalid token closes the connection with a reason, that an identifier which cannot
  be converted to the store's key type closes it with another reason before the store
  is reached, and that the first session for an identifier invokes the load.
\<close>

datatype close_reason = AuthenticationFailed | InvalidDocumentId

datatype ('s, 'oid) connection =
    Rejected close_reason
  | Failed exn
  | Bound "'s ydoc" "'oid session"

definition setupWSConnection ::
  "('s, 'oid) lib \<Rightarrow> (string \<Rightarrow> bool) \<Rightarrow> nat \<Rightarrow> string \<Rightarrow> string \<Rightarrow> 's ydoc \<Rightarrow> 'oid mongo
     \<Rightarrow> ('s, 'oid) connection \<times> 'oid mongo" where
  "setupWSConnection L valid now token docName ydoc m =
     (if \<not> valid token then (Rejected AuthenticationFailed, m)
      else if ObjectId L docName = None then (Rejected InvalidDocumentId, m)
      else (case bindState L now docName ydoc m of
              Inl (e, m1) \<Rightarrow> (Failed e, m1)
            | Inr (ydoc', s) \<Rightarrow> (Bound ydoc' s, s_mdb s)))"

section \<open>A small engine for the examples\<close>

text \<open>
  The closed examples below need some engine to run on. This one keeps a set of
  one-byte operations as a sorted list and merges by union. An update is the number of
  operations, the operations, and a closing zero for the empty delete set, so that the
  empty document encodes to two zero bytes as it does in Yjs; \<^verbatim>\<open>applyUpdate\<close> throws
  on bytes that are not of this form. It stands for the engine only in the examples;
  every other theorem holds for any engine.
\<close>

definition hex24 :: "string \<Rightarrow> string option" where
  "hex24 s = (if length s = 24 \<and> list_all (\<lambda>c. c \<in> set ''0123456789abcdefABCDEF'') s
              then Some s else None)"

definition ex_encode :: "bytes \<Rightarrow> bytes" where
  "ex_encode st = of_nat (length st) # st @ [0]"

fun ex_decode :: "bytes \<Rightarrow> bytes option" where
  "ex_decode [] = None"
| "ex_decode (n # rest) =
     (if length rest = Suc (unat n) \<and> last rest = 0 then Some (butlast rest) else None)"

text \<open>
  Its operations are inserted into one shared type, whose name is a parameter. That
  type keeps the class it has and is untyped when \<^verbatim>\<open>applyUpdate\<close> creates it, with
  the text in an \<^verbatim>\<open>Item\<close> under \<^verbatim>\<open>_start\<close>. \<open>ex_lib\<close> is the engine on \<^verbatim>\<open>root\<close>.
  From an object that is not a \<^verbatim>\<open>Uint8Array\<close> it reads the form and loses the
  operations' contents.
\<close>

definition ex_text :: "bytes \<Rightarrow> string" where
  "ex_text st = replicate (length st) CHR ''x''"

fun ex_root :: "bytes \<Rightarrow> yval \<Rightarrow> yval" where
  "ex_root st (YText n s) = YText (length st) (ex_text st)"
| "ex_root st (YXmlText n s) = YXmlText (length st) (ex_text st)"
| "ex_root st (AbstractType m i start n s) =
     AbstractType m i (Some (Item (ContentString (ex_text st)) ''[object Object]''))
       (length st) (ex_text st)"
| "ex_root st v = v"

definition ex_share :: "string \<Rightarrow> bytes \<Rightarrow> (string \<times> yval) list \<Rightarrow> (string \<times> yval) list" where
  "ex_share name st sh =
     (if st = [] then sh
      else (case map_of sh name of
              None \<Rightarrow> sh @ [(name, ex_root st (AbstractType [] None None 0 []))]
            | Some v \<Rightarrow> share_set name (ex_root st v) sh))"

definition ex_merge :: "string \<Rightarrow> bytes ydoc \<Rightarrow> bytes \<Rightarrow> bytes ydoc" where
  "ex_merge name d ops =
     \<lparr>share = ex_share name (sort (remdups (store d @ ops))) (share d),
      store = sort (remdups (store d @ ops))\<rparr>"

definition ex_applyUpdate :: "string \<Rightarrow> bytes ydoc \<Rightarrow> bytes \<Rightarrow> bytes ydoc option" where
  "ex_applyUpdate name d u =
     (case ex_decode u of None \<Rightarrow> None | Some ops \<Rightarrow> Some (ex_merge name d ops))"

definition ex_applyUpdate_object :: "string \<Rightarrow> bytes ydoc \<Rightarrow> nat list \<Rightarrow> bytes ydoc option" where
  "ex_applyUpdate_object name d xs =
     (case ex_decode (map of_nat xs) of
        None \<Rightarrow> None
      | Some ops \<Rightarrow> Some (ex_merge name d (map (\<lambda>op. 0) ops)))"

definition ex_lib_at :: "string \<Rightarrow> (bytes, string) lib" where
  "ex_lib_at name = \<lparr>Y_emptyStore = [],
                    Y_applyUpdate = ex_applyUpdate name,
                    Y_applyUpdate_object = ex_applyUpdate_object name,
                    Y_encodeStateAsUpdate = ex_encode,
                    ObjectId = hex24\<rparr>"

definition ex_lib :: "(bytes, string) lib" where
  "ex_lib = ex_lib_at ''root''"

definition ex_id :: string where
  "ex_id = ''64b7f0c2a1d3e4f5a6b7c8d9''"

definition ex_mongo :: "(string \<rightharpoonup> docState) \<Rightarrow> string mongo" where
  "ex_mongo c = \<lparr>reachable = True, isConnected = False, collection = c\<rparr>"

section \<open>Frame lemmas\<close>

lemmas ex_defs = ex_lib_def ex_lib_at_def ex_id_def ex_mongo_def hex24_def ex_applyUpdate_def
  ex_applyUpdate_object_def ex_merge_def ex_share_def ex_text_def ex_encode_def

lemmas extract_defs = extractTextFromYDoc_def getText_def ydoc_get_def nonblank_def trim_def
  is_space_def item_text_def field_text_def fallback_field_def logTextBeforeSave_def

lemmas store_defs = connect_def getYDoc_def storeUpdate_def writeState_def
  fixCorruptedDocument_def tempDoc_of_def upsert_def Y_Doc_def

lemma getText_store: "getText d name = Some (t, d') \<Longrightarrow> store d' = store d"
  by (auto simp: getText_def split: option.splits yval.splits)

lemma ydoc_get_store: "ydoc_get d name = (t, d') \<Longrightarrow> store d' = store d"
  by (auto simp: ydoc_get_def split: option.splits)

lemma extractTextFromYDoc_store: "store (snd (extractTextFromYDoc d)) = store d"
  by (auto simp: extractTextFromYDoc_def split: option.splits prod.splits if_splits
      dest!: getText_store ydoc_get_store)

lemma connect_collection: "connect m = Inr m1 \<Longrightarrow> collection m1 = collection m"
  by (auto simp: connect_def split: if_splits)

lemma writeState_empty:
  "Y_encodeStateAsUpdate L (store d) = []
   \<Longrightarrow> collection (snd (writeState L now docName d m)) = collection m"
  by (auto simp: writeState_def split: sum.splits dest: connect_collection)



section \<open>Empty-write suppression\<close>



section \<open>The guard window\<close>

lemma step_guard:
  "isInitialLoad s \<Longrightarrow> timer s = Some due \<Longrightarrow> event_time e < due \<Longrightarrow> step docName s e = s"
  by (cases e) (simp_all add: update_listener_def)

lemma run_guard:
  "isInitialLoad s \<Longrightarrow> timer s = Some due \<Longrightarrow> list_all (\<lambda>e. event_time e < due) evs
   \<Longrightarrow> run docName s evs = s"
  by (induction evs) (simp_all add: run_def step_guard)

lemma step_active:
  "\<not> isInitialLoad s \<Longrightarrow> \<not> isInitialLoad (step docName s e)"
  by (cases e) (simp_all add: update_listener_def split: option.splits)

lemma run_active:
  "\<not> isInitialLoad s \<Longrightarrow> issued (run docName s evs) = issued s @ calls_of docName evs"
proof (induction evs arbitrary: s)
  case Nil
  then show ?case by (simp add: run_def)
next
  case (Cons e evs)
  have a: "\<not> isInitialLoad (step docName s e)"
    using Cons.prems by (rule step_active)
  have "issued (run docName (step docName s e) evs)
        = issued (step docName s e) @ calls_of docName evs"
    using Cons.IH [OF a] .
  moreover have "issued (step docName s e) @ calls_of docName evs
        = issued s @ calls_of docName (e # evs)"
    using Cons.prems by (cases e) (simp_all add: update_listener_def split: option.splits)
  ultimately show ?case by (simp add: run_def)
qed

lemma bindState_session:
  "bindState L t0 docName ydoc m = Inr (ydoc', s0)
   \<Longrightarrow> isInitialLoad s0 \<and> timer s0 = Some (t0 + 2000) \<and> issued s0 = []"
  by (auto simp: bindState_def split: prod.splits sum.splits if_splits option.splits)

text \<open>
  C2. Let \<^verbatim>\<open>bindState\<close> have bound a document at time \<open>t0\<close>; no call of
  \<^verbatim>\<open>storeUpdate\<close> has been made then. Whatever update events fire on the live
  document before \<open>t0 + 2000\<close>, with whatever origin, the session is as \<^verbatim>\<open>bindState\<close>
  left it: \<^verbatim>\<open>storeUpdate\<close> is not called. Once the timeout callback has run (at its
  due time or later), the calls of \<^verbatim>\<open>storeUpdate\<close> made are one for every later update
  event, in order and whatever the origin, each with the bytes of its event. The window
  is the time until the callback runs; time is the event loop's clock in milliseconds.
\<close>

theorem guard_window_then_every_update_calls_storeUpdate:
  assumes b: "bindState L t0 docName ydoc m = Inr (ydoc', s0)"
    and early: "list_all (\<lambda>e. event_time e < t0 + 2000) (before :: 'e event list)"
    and due: "t0 + 2000 \<le> t"
  shows "issued s0 = []
         \<and> run docName s0 before = s0
         \<and> issued (run docName s0 (before @ Timeout t # after)) = calls_of docName after"
proof -
  from bindState_session [OF b]
  have i: "isInitialLoad s0" and tm: "timer s0 = Some (t0 + 2000)" and n0: "issued s0 = []"
    by simp_all
  have g: "run docName s0 before = s0" using i tm early by (rule run_guard)
  let ?s1 = "step docName s0 (Timeout t :: 'e event)"
  have n: "\<not> isInitialLoad ?s1" using tm due by simp
  have m1: "issued ?s1 = []" using tm due n0 by simp
  have "run docName s0 (before @ Timeout t # after) = run docName ?s1 after"
    using g by (simp add: run_def)
  then show ?thesis using g n0 run_active [OF n, of docName after] m1 by simp
qed

text \<open>
  An instance: no record yet, one update inside the window and two after it, of
  different origins. The last two are passed to \<^verbatim>\<open>storeUpdate\<close>.
\<close>

theorem guard_window_then_every_update_calls_storeUpdate_witness:
  "bindState ex_lib 9 ex_id \<lparr>share = [(''root'', YXmlText 1 ''x'')], store = [7]\<rparr>
     (ex_mongo Map.empty)
   = Inr (\<lparr>share = [(''root'', YXmlText 1 ''x''), (''content'', YText 0 []),
                    (''lexical'', YText 0 [])], store = [7]\<rparr>,
          \<lparr>s_mdb = \<lparr>reachable = True, isConnected = True, collection = Map.empty\<rparr>,
           isInitialLoad = True, hasAppliedPersistedState = False, timer = Some 2009,
           issued = []\<rparr>)
   \<and> list_all (\<lambda>e. event_time e < 9 + 2000)
        [Update 10 \<lparr>share = [], store = [1, 7::8 word]\<rparr> [1, 1, 0] NoOrigin]
   \<and> 9 + 2000 \<le> (2009::nat)
   \<and> issued (run ex_id
        \<lparr>s_mdb = \<lparr>reachable = True, isConnected = True,
                  collection = (Map.empty :: string \<rightharpoonup> docState)\<rparr>,
         isInitialLoad = True, hasAppliedPersistedState = False, timer = Some 2009,
         issued = []\<rparr>
        ([Update 10 \<lparr>share = [], store = [1, 7::8 word]\<rparr> [1, 1, 0] NoOrigin]
          @ Timeout 2009
          # [Update 2010 \<lparr>share = [], store = [1, 2, 7]\<rparr> [1, 2, 0] (Origin ''ws''),
             Update 2011 \<lparr>share = [], store = [1, 2, 3, 7]\<rparr> [1, 3, 0] NoOrigin]))
     = [StoreUpdate ex_id [1, 2, 0], StoreUpdate ex_id [1, 3, 0]]"
proof -
  have b: "bindState ex_lib 9 ex_id \<lparr>share = [(''root'', YXmlText 1 ''x'')], store = [7]\<rparr>
     (ex_mongo Map.empty)
   = Inr (\<lparr>share = [(''root'', YXmlText 1 ''x''), (''content'', YText 0 []),
                    (''lexical'', YText 0 [])], store = [7]\<rparr>,
          \<lparr>s_mdb = \<lparr>reachable = True, isConnected = True, collection = Map.empty\<rparr>,
           isInitialLoad = True, hasAppliedPersistedState = False, timer = Some 2009,
           issued = []\<rparr>)"
    by (simp add: bindState_def store_defs ex_defs extract_defs)
  have e: "list_all (\<lambda>e. event_time e < 9 + 2000)
             [Update 10 \<lparr>share = [], store = [1, 7::8 word]\<rparr> [1, 1, 0] NoOrigin]"
    by simp
  have d: "9 + 2000 \<le> (2009::nat)" by simp
  show ?thesis
    using guard_window_then_every_update_calls_storeUpdate [OF b e d,
        of "[Update 2010 \<lparr>share = [], store = [1, 2, 7::8 word]\<rparr> [1, 2, 0] (Origin ''ws''),
             Update 2011 \<lparr>share = [], store = [1, 2, 3, 7]\<rparr> [1, 3, 0] NoOrigin]"] b
    by simp
qed

section \<open>Loading\<close>








section \<open>Storing an update\<close>

lemma tempDoc_of_scratch_document: "tempDoc_of L r = scratch_document L r"
proof (cases r)
  case None
  then show ?thesis by (simp add: tempDoc_of_def scratch_document_def persisted_snapshot_def)
next
  case (Some st)
  then show ?thesis
    by (cases "stateVector st" rule: to_Uint8Array.cases)
       (simp_all add: tempDoc_of_def scratch_document_def persisted_snapshot_def)
qed

text \<open>
  Where \<^verbatim>\<open>Y.applyUpdate\<close> throws on the stored snapshot, \<^verbatim>\<open>storeUpdate\<close> writes
  nothing, whereas \<^verbatim>\<open>getYDoc\<close> answers the same snapshot with a fresh document.
\<close>

lemma storeUpdate_aborts:
  assumes "connect m = Inr m1"
    and "ObjectId L docName = Some oid"
    and "scratch_document L (collection m oid) = None"
  shows "storeUpdate L now docName update m = (Inr (), m1)"
  using assms connect_collection [of m m1]
  by (simp add: storeUpdate_def tempDoc_of_scratch_document)




section \<open>Merging the persisted state at load time\<close>

text \<open>
  Whatever the engine: when the extractor finds no text in the persisted document,
  \<^verbatim>\<open>bindState\<close> does not call \<^verbatim>\<open>Y.applyUpdate\<close>, and the store of the live document
  is as before.
\<close>

lemma bindState_skips_merge:
  assumes g: "getYDoc L now docName m = (Inr persisted, m1)"
    and t: "fst (extractTextFromYDoc persisted) = []"
  shows "\<exists>ydoc' s. bindState L now docName ydoc m = Inr (ydoc', s)
           \<and> store ydoc' = store ydoc \<and> \<not> hasAppliedPersistedState s"
proof -
  obtain pt p1 where p: "extractTextFromYDoc persisted = (pt, p1)"
    by (cases "extractTextFromYDoc persisted")
  obtain ct y1 where y: "extractTextFromYDoc ydoc = (ct, y1)"
    by (cases "extractTextFromYDoc ydoc")
  have "store y1 = store ydoc"
    using extractTextFromYDoc_store [of ydoc] y by simp
  then show ?thesis
    using g t p y extractTextFromYDoc_store [of y1] by (simp add: bindState_def)
qed

text \<open>
  C5. Merging the persisted snapshot at load time must leave a document that contains
  both the live content and the persisted snapshot. Here the record holds the snapshot
  of the operations \<open>104\<close> and \<open>105\<close>, and \<^verbatim>\<open>getYDoc\<close> decodes it into a document with
  its text under an untyped \<^verbatim>\<open>root\<close>, as a document read from bytes has it. The
  extractor looks for that text under \<^verbatim>\<open>_start\<close> and does not find it, because what is
  there is an \<^verbatim>\<open>Item\<close> and not a \<^verbatim>\<open>Y.Text\<close>; \<^verbatim>\<open>bindState\<close> takes the persisted
  document for empty and skips \<^verbatim>\<open>Y.applyUpdate\<close>. The live document, which holds the
  operation \<open>7\<close>, encodes after \<^verbatim>\<open>bindState\<close> as before, without the snapshot, whereas
  the merge that was skipped would have given all three operations.
\<close>

theorem bindState_skips_persisted_snapshot:
  "getYDoc ex_lib 9 ex_id
     (ex_mongo [ex_id \<mapsto> \<lparr>stateVector = Some (Binary [2, 104, 105, 0]), updatedAt = 5\<rparr>])
     = (Inr \<lparr>share = [(''root'', AbstractType [] None
                (Some (Item (ContentString ''xx'') ''[object Object]'')) 2 ''xx'')],
             store = [104, 105]\<rparr>,
        \<lparr>reachable = True, isConnected = True,
         collection = [ex_id \<mapsto> \<lparr>stateVector = Some (Binary [2, 104, 105, 0]),
                                  updatedAt = 5\<rparr>]\<rparr>)
   \<and> fst (extractTextFromYDoc
        \<lparr>share = [(''root'', AbstractType [] None
                (Some (Item (ContentString ''xx'') ''[object Object]'')) 2 ''xx'')],
         store = [104, 105::8 word]\<rparr>) = []
   \<and> bindState ex_lib 9 ex_id \<lparr>share = [(''root'', YXmlText 1 ''x'')], store = [7]\<rparr>
        (ex_mongo [ex_id \<mapsto> \<lparr>stateVector = Some (Binary [2, 104, 105, 0]), updatedAt = 5\<rparr>])
     = Inr (\<lparr>share = [(''root'', YXmlText 1 ''x''), (''content'', YText 0 []),
                      (''lexical'', YText 0 [])], store = [7]\<rparr>,
            \<lparr>s_mdb = \<lparr>reachable = True, isConnected = True,
                      collection = [ex_id \<mapsto> \<lparr>stateVector = Some (Binary [2, 104, 105, 0]),
                                                updatedAt = 5\<rparr>]\<rparr>,
             isInitialLoad = True, hasAppliedPersistedState = False, timer = Some 2009,
             issued = []\<rparr>)
   \<and> Y_encodeStateAsUpdate ex_lib [7] = [1, 7, 0]
   \<and> Y_applyUpdate ex_lib
        \<lparr>share = [(''root'', YXmlText 1 ''x''), (''content'', YText 0 []),
                  (''lexical'', YText 0 [])], store = [7]\<rparr> [2, 104, 105, 0]
     = Some \<lparr>share = [(''root'', YXmlText 3 ''xxx''), (''content'', YText 0 []),
                       (''lexical'', YText 0 [])], store = [7, 104, 105]\<rparr>"
  by (simp add: bindState_def store_defs ex_defs extract_defs)

section \<open>What decides a write\<close>





section \<open>Shutdown order\<close>

text \<open>
  C8 (amended). On \<^verbatim>\<open>SIGINT\<close> or \<^verbatim>\<open>SIGTERM\<close> the handler first releases the
  connection to the store and then stops accepting connections; the process exits with
  code 0 once no connection is open. The handler flushes no document, and its trace
  never has the order of the specification.
\<close>

theorem shutdown_order:
  "fst (shutdown p) = ReleaseStore # StopAccepting # (if connections p = 0 then [Exit 0] else [])
   \<and> \<not> isConnected (p_mdb (snd (shutdown p)))
   \<and> \<not> listening (snd (shutdown p))
   \<and> Flush d \<notin> set (fst (shutdown p))
   \<and> \<not> two_phase_order docs (fst (shutdown p))"
  by (simp add: shutdown_def Let_def destroy_def disconnect_def two_phase_order_def position_def)

text \<open>
  Against the claim as first stated: the trace of a process with a connected store
  and no open connection, which is not in the order that a trace such as the last one
  has.
\<close>

theorem shutdown_order_counterexample:
  "fst (shutdown \<lparr>p_mdb = \<lparr>reachable = True, isConnected = True, collection = Map.empty\<rparr>,
                  listening = True, connections = 0, exited = None\<rparr>)
     = [ReleaseStore, StopAccepting, Exit 0]
   \<and> \<not> two_phase_order []
        (fst (shutdown \<lparr>p_mdb = \<lparr>reachable = True, isConnected = True, collection = Map.empty\<rparr>,
                        listening = True, connections = 0, exited = None\<rparr>))
   \<and> two_phase_order [''a''] [StopAccepting, Flush ''a'', ReleaseStore, Exit 0]"
  by (simp add: shutdown_def Let_def destroy_def disconnect_def two_phase_order_def position_def)

section \<open>Identifiers that are not ObjectIds\<close>

text \<open>
  C9. For every document ID that cannot be converted to an ObjectId, the connection is
  rejected and the store is as it was: no load, no \<^verbatim>\<open>storeUpdate\<close> and no
  \<^verbatim>\<open>writeState\<close> is reached. Moreover each of the three, were it called with such
  an ID, leaves the collection unchanged.
\<close>

theorem invalid_id_rejected:
  assumes i: "ObjectId L docName = None"
  shows "(\<exists>r. setupWSConnection L valid now token docName ydoc m = (Rejected r, m))
       \<and> collection (snd (getYDoc L now docName m)) = collection m
       \<and> collection (snd (storeUpdate L now docName update m)) = collection m
       \<and> collection (snd (writeState L now docName ydoc m)) = collection m"
proof -
  have "collection (snd (getYDoc L now docName m)) = collection m"
    using i by (auto simp: getYDoc_def split: sum.splits dest: connect_collection)
  moreover have "collection (snd (storeUpdate L now docName update m)) = collection m"
    using i by (auto simp: storeUpdate_def split: sum.splits dest: connect_collection)
  moreover have "collection (snd (writeState L now docName ydoc m)) = collection m"
    using i by (auto simp: writeState_def Let_def split: sum.splits dest: connect_collection)
  ultimately show ?thesis using i by (simp add: setupWSConnection_def)
qed

theorem invalid_id_rejected_witness:
  "ObjectId ex_lib ''doc1'' = None
   \<and> setupWSConnection ex_lib (\<lambda>t. t = ''secret'') 9 ''secret'' ''doc1''
        \<lparr>share = [], store = []\<rparr> (ex_mongo Map.empty)
     = (Rejected InvalidDocumentId, ex_mongo Map.empty)
   \<and> collection (snd (storeUpdate ex_lib 9 ''doc1'' [4] (ex_mongo Map.empty)))
     = collection (ex_mongo Map.empty)"
proof -
  have i: "ObjectId ex_lib ''doc1'' = None" by (simp add: ex_defs)
  show ?thesis
    using invalid_id_rejected [OF i, of "\<lambda>t. t = ''secret''" 9 "''secret''"
        "\<lparr>share = [], store = []\<rparr>" "ex_mongo Map.empty" "[4]"] i
    by (simp add: setupWSConnection_def)
qed

section \<open>The extractor changes the registry\<close>

lemma getText_fresh:
  "map_of (share d) name = None
   \<Longrightarrow> getText d name = Some (YText 0 [], d\<lparr>share := share d @ [(name, YText 0 [])]\<rparr>)"
  by (simp add: getText_def)

text \<open>
  C10 (amended). \<^verbatim>\<open>extractTextFromYDoc\<close> returns a string on every document (what
  \<^verbatim>\<open>getText\<close> throws is caught), and it is not a pure read: on a document whose
  registry lacks \<^verbatim>\<open>content\<close>, \<^verbatim>\<open>lexical\<close> and \<^verbatim>\<open>editor\<close>, it instantiates
  \<^verbatim>\<open>content\<close> and \<^verbatim>\<open>lexical\<close> as empty texts, and \<^verbatim>\<open>editor\<close> too unless the
  lookup of \<^verbatim>\<open>root\<close> has returned a text before; the store is unchanged.
\<close>

theorem extract_instantiates:
  assumes c: "map_of (share d) ''content'' = None"
    and l: "map_of (share d) ''lexical'' = None"
    and e: "map_of (share d) ''editor'' = None"
  shows "map_of (share (snd (extractTextFromYDoc d))) ''content'' = Some (YText 0 [])
       \<and> map_of (share (snd (extractTextFromYDoc d))) ''lexical'' = Some (YText 0 [])
       \<and> map_of (share (snd (extractTextFromYDoc d))) ''editor''
           = (case map_of (share d) ''root'' of
                None \<Rightarrow> Some (YText 0 [])
              | Some r \<Rightarrow> if root_text r = None then Some (YText 0 []) else None)
       \<and> store (snd (extractTextFromYDoc d)) = store d"
  using c l e
  by (auto simp: extractTextFromYDoc_def getText_fresh ydoc_get_def map_add_def field_text_def
      split: option.splits)

text \<open>
  An instance: on an empty registry all three are instantiated, and \<^verbatim>\<open>root\<close> too.
\<close>

theorem extract_instantiates_witness:
  "map_of (share \<lparr>share = [], store = [1::8 word]\<rparr>) ''content'' = None
   \<and> map_of (share \<lparr>share = [], store = [1::8 word]\<rparr>) ''lexical'' = None
   \<and> map_of (share \<lparr>share = [], store = [1::8 word]\<rparr>) ''editor'' = None
   \<and> map_of (share (snd (extractTextFromYDoc \<lparr>share = [], store = [1::8 word]\<rparr>))) ''editor''
     = Some (YText 0 [])
   \<and> extractTextFromYDoc \<lparr>share = [], store = [1::8 word]\<rparr>
     = ([], \<lparr>share = [(''content'', YText 0 []), (''lexical'', YText 0 []),
                      (''root'', AbstractType [] None None 0 []), (''editor'', YText 0 [])],
            store = [1]\<rparr>)"
  using extract_instantiates [of "\<lparr>share = [], store = [1::8 word]\<rparr>"]
  by (simp add: extract_defs)

text \<open>
  Against the claim as first stated: a document with text in a typed \<^verbatim>\<open>root\<close>. The
  extractor returns at the root, and \<^verbatim>\<open>editor\<close> is not instantiated.
\<close>

theorem extract_instantiates_counterexample:
  "map_of (share \<lparr>share = [(''root'', YXmlText 5 ''hello'')], store = [1::8 word]\<rparr>) ''content'' = None
   \<and> map_of (share \<lparr>share = [(''root'', YXmlText 5 ''hello'')], store = [1::8 word]\<rparr>) ''lexical'' = None
   \<and> map_of (share \<lparr>share = [(''root'', YXmlText 5 ''hello'')], store = [1::8 word]\<rparr>) ''editor'' = None
   \<and> extractTextFromYDoc \<lparr>share = [(''root'', YXmlText 5 ''hello'')], store = [1::8 word]\<rparr>
     = (''hello'', \<lparr>share = [(''root'', YXmlText 5 ''hello''), (''content'', YText 0 []),
                             (''lexical'', YText 0 [])], store = [1]\<rparr>)
   \<and> map_of (share (snd (extractTextFromYDoc
         \<lparr>share = [(''root'', YXmlText 5 ''hello'')], store = [1::8 word]\<rparr>))) ''editor'' = None"
  by (simp add: extract_defs)

end
